theory Spec2Isabelle
  imports Complex_Main "HOL-Library.Sublist"
begin

section \<open>Python values, exceptions and subscripting\<close>

text \<open>
  The upstream client hands back a JSON-like Python object. Strings are byte lists
  (UTF-8); the code only concatenates them, compares them and searches them.
\<close>

datatype key = KStr string | KInt int

datatype pyval =
    PNone
  | PBool bool
  | PInt int
  | PFloat real
  | PStr string
  | PList "pyval list"
  | PDict "(string \<times> pyval) list"

text \<open>
  The exceptions that can travel through \<open>completions_repo.py\<close>: the classes of
  \<open>openai.error\<close> (siblings below \<open>OpenAIError\<close>; \<open>InvalidRequestError\<close>
  carries \<open>str(e)\<close>), tenacity's \<open>RetryError\<close> around the last attempt's exception,
  and the built-in ones raised by subscripting, by the base class and by the factory.
\<close>

datatype error =
    Timeout
  | APIError
  | APIConnectionError
  | RateLimitError
  | ServiceUnavailableError
  | InvalidRequestError string
  | AuthenticationError
  | RetryError error
  | KeyError key
  | IndexError
  | TypeError
  | NotImplementedError
  | ValueError string

fun isinstance_dict :: "pyval \<Rightarrow> bool" where
  "isinstance_dict (PDict kvs) = True"
| "isinstance_dict v = False"

text \<open>Python's \<open>seq[i]\<close> with an integer: positions \<open>0 .. len - 1\<close> from the front,
  \<open>-1 .. -len\<close> from the back, \<open>IndexError\<close> anywhere else.\<close>

definition index_seq :: "'a list \<Rightarrow> int \<Rightarrow> error + 'a" where
  "index_seq xs i =
     (if 0 \<le> i \<and> i < int (length xs) then Inr (xs ! nat i)
      else if i < 0 \<and> - int (length xs) \<le> i then Inr (xs ! nat (int (length xs) + i))
      else Inl IndexError)"

text \<open>Python's \<open>v[k]\<close>: a missing key, an index out of range and a value that cannot
  be subscripted that way each raise.\<close>

fun getitem :: "pyval \<Rightarrow> key \<Rightarrow> error + pyval" where
  "getitem (PDict kvs) (KStr k) =
     (case map_of kvs k of None \<Rightarrow> Inl (KeyError (KStr k)) | Some v \<Rightarrow> Inr v)"
| "getitem (PDict kvs) (KInt i) = Inl (KeyError (KInt i))"
| "getitem (PList xs) (KInt i) = index_seq xs i"
| "getitem (PList xs) (KStr k) = Inl TypeError"
| "getitem (PStr s) (KInt i) =
     (case index_seq s i of Inl e \<Rightarrow> Inl e | Inr c \<Rightarrow> Inr (PStr [c]))"
| "getitem (PStr s) (KStr k) = Inl TypeError"
| "getitem v k = Inl TypeError"

text \<open>A chain \<open>v[k1][k2]...\<close>, stopping at the first subscript that raises.\<close>

fun getitems :: "pyval \<Rightarrow> key list \<Rightarrow> error + pyval" where
  "getitems v [] = Inr v"
| "getitems v (k # ks) =
     (case getitem v k of Inl e \<Rightarrow> Inl e | Inr v' \<Rightarrow> getitems v' ks)"

text \<open>Python's \<open>sub in s\<close> on strings.\<close>

fun str_in :: "string \<Rightarrow> string \<Rightarrow> bool" where
  "str_in sub [] = (sub = [])"
| "str_in sub (c # cs) = (prefix sub (c # cs) \<or> str_in sub cs)"

definition newline :: string where
  "newline = [CHR 0x0A]"

section \<open>Collaborators\<close>

subsection \<open>The upstream API\<close>

record message =
  role :: string
  content :: string

datatype request =
    ChatCompletion_create (req_model: string) (req_messages: "message list")
      (req_temperature: real) (req_max_tokens: int)
  | Completion_create (req_model: string) (req_prompt: string)
      (req_temperature: real) (req_max_tokens: int)

text \<open>
  The upstream is a mock: \<open>respond n req\<close> is what its call number \<open>n\<close> (from 0) does
  with the request, a response object or a raised exception; \<open>calls\<close> lists the
  requests submitted so far.
\<close>

record openai_api =
  respond :: "nat \<Rightarrow> request \<Rightarrow> error + pyval"
  calls :: "request list"

definition create :: "openai_api \<Rightarrow> request \<Rightarrow> (error + pyval) \<times> openai_api" where
  "create api req =
     (respond api (length (calls api)) req, api\<lparr>calls := calls api @ [req]\<rparr>)"

subsection \<open>The publishing service\<close>

record publish_service =
  sections_stack :: "string list"
  published :: "string list"

text \<open>Modelled from the spec: \<open>PublishService.end_section\<close> is not part of the source
  at hand; the specification describes it as popping one section off the stack.\<close>

definition end_section :: "publish_service \<Rightarrow> publish_service" where
  "end_section ps = ps\<lparr>sections_stack := butlast (sections_stack ps)\<rparr>"

text \<open>Modelled from the spec: \<open>PublishService.publish_update\<close> is not part of the source
  at hand; the specification describes it as emitting one user-visible message.\<close>

definition publish_update :: "publish_service \<Rightarrow> string \<Rightarrow> publish_service" where
  "publish_update ps msg = ps\<lparr>published := published ps @ [msg]\<rparr>"

section \<open>The completions repository\<close>

datatype repo_class = CompletionsRepo | OpenAIChatCompletionsRepo | OpenAICompletionsRepo

datatype level = Info | Error

record completions_repo =
  self_class :: repo_class
  self_publish_service :: publish_service
  self_model :: string
  self_max_tokens :: int
  self_min_tokens :: int
  self_context_limit :: int
  self_temperature :: real
  self_tokenizer :: "string \<Rightarrow> nat list"
  self_log :: "(level \<times> string) list"

text \<open>\<open>CompletionsRepo.__init__\<close>; \<open>tokenizer.get_tokenizer\<close> lives outside the source
  at hand and is a parameter.\<close>

definition init ::
  "repo_class \<Rightarrow> (int \<Rightarrow> string \<Rightarrow> nat list) \<Rightarrow> publish_service \<Rightarrow> string \<Rightarrow>
   int \<Rightarrow> int \<Rightarrow> int \<Rightarrow> real \<Rightarrow> completions_repo" where
  "init cls get_tokenizer publish_service model max_tokens min_tokens context_limit temperature =
     \<lparr>self_class = cls,
      self_publish_service = publish_service,
      self_model = model,
      self_max_tokens = max_tokens,
      self_min_tokens = min_tokens,
      self_context_limit = context_limit,
      self_temperature = temperature,
      self_tokenizer = get_tokenizer max_tokens,
      self_log = []\<rparr>"

definition log_event :: "level \<Rightarrow> string \<Rightarrow> completions_repo \<Rightarrow> completions_repo" where
  "log_event lvl event self = self\<lparr>self_log := self_log self @ [(lvl, event)]\<rparr>"

subsection \<open>The retry decorator\<close>

definition openai_retry_if_union :: "error \<Rightarrow> bool" where
  "openai_retry_if_union e =
     (e = Timeout \<or> e = APIError \<or> e = APIConnectionError \<or> e = RateLimitError
      \<or> e = ServiceUnavailableError)"

definition stop_after_attempt :: "nat \<Rightarrow> nat \<Rightarrow> bool" where
  "stop_after_attempt max_attempt_number attempt_number =
     (attempt_number \<ge> max_attempt_number)"

text \<open>
  \<open>@retry(retry=openai_retry_if_union, wait=wait_random_exponential(min=1, max=240),
  stop=stop_after_attempt(8))\<close> around a method body \<open>f\<close>. An attempt that returns, or
  that raises an exception the predicate rejects, ends the loop with that outcome. After
  a retryable failure the stop condition is consulted: when it holds, tenacity raises
  its \<open>RetryError\<close> around the last attempt (\<open>reraise\<close> is left at its default);
  otherwise it sleeps and runs the next attempt. The sleep takes time and changes
  nothing else, so it leaves no trace in the state; \<open>retry_timed\<close> below keeps it.
\<close>

function retry ::
  "('s \<Rightarrow> (error + 'a) \<times> 's) \<Rightarrow> nat \<Rightarrow> 's \<Rightarrow> (error + 'a) \<times> 's" where
  "retry f attempt_number s =
     (let (outcome, s') = f s
      in case outcome of
           Inr v \<Rightarrow> (Inr v, s')
         | Inl e \<Rightarrow>
             if \<not> openai_retry_if_union e then (Inl e, s')
             else if stop_after_attempt 8 attempt_number then (Inl (RetryError e), s')
             else retry f (attempt_number + 1) s')"
  by pat_completeness auto
termination
  by (relation "measure (\<lambda>(f, attempt_number, s). 8 - attempt_number)")
     (auto simp: stop_after_attempt_def)




subsection \<open>The chat-style formatter\<close>

definition chat_messages ::
  "string \<Rightarrow> (string \<times> string) list \<Rightarrow> string \<Rightarrow> message list" where
  "chat_messages system_prompt examples prompt =
     foldl (\<lambda>messages example.
              (messages @ [\<lparr>role = ''user'', content = fst example\<rparr>])
                @ [\<lparr>role = ''assistant'', content = snd example\<rparr>])
           [\<lparr>role = ''system'', content = system_prompt\<rparr>] examples
     @ [\<lparr>role = ''user'', content = prompt\<rparr>]"

definition OpenAIChatCompletionsRepo_body ::
  "string \<Rightarrow> string \<Rightarrow> (string \<times> string) list \<Rightarrow> int \<Rightarrow> real \<Rightarrow>
   completions_repo \<times> openai_api \<Rightarrow> (error + pyval) \<times> completions_repo \<times> openai_api" where
  "OpenAIChatCompletionsRepo_body prompt system_prompt examples max_tokens temperature s =
     (let (self, api) = s;
          messages = chat_messages system_prompt examples prompt;
          (outcome, api') =
            create api (ChatCompletion_create (self_model self) messages temperature max_tokens)
      in case outcome of
           Inl e \<Rightarrow> (Inl e, self, api')
         | Inr openai_response \<Rightarrow>
             if openai_response = PNone \<or> \<not> isinstance_dict openai_response then
               (Inr (PStr ''''),
                log_event Error ''OpenAI chat completion returned invalid response'' self,
                api')
             else
               (getitems openai_response
                  [KStr ''choices'', KInt 0, KStr ''message'', KStr ''content''],
                log_event Info ''Ran OpenAI chat completion'' self,
                api'))"

definition OpenAIChatCompletionsRepo_complete ::
  "string \<Rightarrow> string \<Rightarrow> (string \<times> string) list \<Rightarrow> int \<Rightarrow> real \<Rightarrow>
   completions_repo \<times> openai_api \<Rightarrow> (error + pyval) \<times> completions_repo \<times> openai_api" where
  "OpenAIChatCompletionsRepo_complete prompt system_prompt examples max_tokens temperature s =
     retry (OpenAIChatCompletionsRepo_body prompt system_prompt examples max_tokens temperature)
       1 s"


subsection \<open>The raw-text formatter\<close>

text \<open>The argument \<open>prompt\<close> is overwritten by the first assignment of the body.\<close>

definition text_prompt ::
  "string \<Rightarrow> (string \<times> string) list \<Rightarrow> string \<Rightarrow> string" where
  "text_prompt system_prompt examples prompt =
     (let prompt1 = system_prompt;
          prompt2 = foldl (\<lambda>p example.
                             p @ newline @ newline @ fst example @ newline @ snd example)
                          prompt1 examples
      in prompt2 @ newline @ newline @ prompt2)"

definition OpenAICompletionsRepo_body ::
  "string \<Rightarrow> string \<Rightarrow> (string \<times> string) list \<Rightarrow> int \<Rightarrow> real \<Rightarrow>
   completions_repo \<times> openai_api \<Rightarrow> (error + pyval) \<times> completions_repo \<times> openai_api" where
  "OpenAICompletionsRepo_body prompt system_prompt examples max_tokens temperature s =
     (let (self, api) = s;
          prompt' = text_prompt system_prompt examples prompt;
          (outcome, api') =
            create api (Completion_create (self_model self) prompt' temperature max_tokens)
      in case outcome of
           Inl e \<Rightarrow> (Inl e, self, api')
         | Inr openai_response \<Rightarrow>
             (let self' = log_event Info ''Ran OpenAI completion'' self
              in if openai_response = PNone \<or> \<not> isinstance_dict openai_response then
                   (Inr (PStr ''''),
                    log_event Error ''OpenAI chat completion returned invalid response'' self',
                    api')
                 else
                   (getitems openai_response [KStr ''choices'', KInt 0, KStr ''text''],
                    self', api')))"

definition OpenAICompletionsRepo_complete ::
  "string \<Rightarrow> string \<Rightarrow> (string \<times> string) list \<Rightarrow> int \<Rightarrow> real \<Rightarrow>
   completions_repo \<times> openai_api \<Rightarrow> (error + pyval) \<times> completions_repo \<times> openai_api" where
  "OpenAICompletionsRepo_complete prompt system_prompt examples max_tokens temperature s =
     retry (OpenAICompletionsRepo_body prompt system_prompt examples max_tokens temperature)
       1 s"


subsection \<open>The base class\<close>

text \<open>\<open>self._complete(...)\<close>: the method of the instance's class; the base class's own
  raises \<open>NotImplementedError\<close>.\<close>

definition dispatch_complete ::
  "string \<Rightarrow> string \<Rightarrow> (string \<times> string) list \<Rightarrow> int \<Rightarrow> real \<Rightarrow>
   completions_repo \<times> openai_api \<Rightarrow> (error + pyval) \<times> completions_repo \<times> openai_api" where
  "dispatch_complete prompt system_prompt examples max_tokens temperature s =
     (case self_class (fst s) of
        CompletionsRepo \<Rightarrow> (Inl NotImplementedError, s)
      | OpenAIChatCompletionsRepo \<Rightarrow>
          OpenAIChatCompletionsRepo_complete prompt system_prompt examples max_tokens temperature s
      | OpenAICompletionsRepo \<Rightarrow>
          OpenAICompletionsRepo_complete prompt system_prompt examples max_tokens temperature s)"

definition gpt4_missing :: string where
  "gpt4_missing = ''`gpt-4` does not exist''"

text \<open>The warning starts with three warning signs (U+26A0 U+FE0F), written in UTF-8.\<close>

definition warning_sign :: string where
  "warning_sign = [CHR 0xE2, CHR 0x9A, CHR 0xA0, CHR 0xEF, CHR 0xB8, CHR 0x8F]"

definition gpt4_warning :: string where
  "gpt4_warning =
     warning_sign @ warning_sign @ warning_sign
     @ '' Your OpenAI API key does not have access to the `gpt-4` model. ''
     @ ''Please note that ChatGPT Plus does not give you access to the `gpt-4` API; ''
     @ ''you need to sign up on [the GPT-4 API waitlist](https://openai.com/waitlist/gpt-4-api). ''"

text \<open>\<open>while len(self.publish_service.sections_stack) > 1: end_section()\<close>\<close>

function drain_sections :: "publish_service \<Rightarrow> publish_service" where
  "drain_sections ps =
     (if length (sections_stack ps) > 1 then drain_sections (end_section ps) else ps)"
  by pat_completeness auto
termination
  by (relation "measure (\<lambda>ps. length (sections_stack ps))") (auto simp: end_section_def)

definition complete ::
  "completions_repo \<Rightarrow> openai_api \<Rightarrow> string \<Rightarrow> string option \<Rightarrow>
   (string \<times> string) list option \<Rightarrow> real option \<Rightarrow>
   (error + pyval) \<times> completions_repo \<times> openai_api" where
  "complete self api prompt system_prompt examples temperature =
     (let examples' = (case examples of None \<Rightarrow> [] | Some exs \<Rightarrow> exs);
          system_prompt' =
            (case system_prompt of None \<Rightarrow> ''You are a helpful assistant.'' | Some sp \<Rightarrow> sp);
          temperature' = (case temperature of None \<Rightarrow> self_temperature self | Some t \<Rightarrow> t);
          len = int (length (self_tokenizer self prompt));
          max_tokens = min (self_max_tokens self) (self_context_limit self - len);
          self1 = log_event Info ''Running completion'' self;
          (outcome, self2, api2) =
            dispatch_complete prompt system_prompt' examples' max_tokens temperature' (self1, api)
      in case outcome of
           Inl e \<Rightarrow>
             (case e of
                InvalidRequestError msg \<Rightarrow>
                  if \<not> str_in gpt4_missing msg then (Inl e, self2, api2)
                  else
                    (let ps = drain_sections (self_publish_service self2);
                         ps' = publish_update ps gpt4_warning
                     in (Inl e, self2\<lparr>self_publish_service := ps'\<rparr>, api2))
              | _ \<Rightarrow> (Inl e, self2, api2))
         | Inr result \<Rightarrow> (Inr result, log_event Info ''Completed'' self2, api2))"

subsection \<open>The factory\<close>





section \<open>Test doubles\<close>

text \<open>A tokenizer that yields one token per character, a publishing service with three
  open sections, a repository built by the constructor, an upstream that plays a script
  of outcomes and then repeats one, and well-formed responses of the two endpoints.\<close>

definition demo_tokenizer :: "int \<Rightarrow> string \<Rightarrow> nat list" where
  "demo_tokenizer max_tokens text = map of_char text"

definition demo_publish_service :: publish_service where
  "demo_publish_service = \<lparr>sections_stack = [''root'', ''plan'', ''step''], published = []\<rparr>"

definition demo_repo :: "repo_class \<Rightarrow> string \<Rightarrow> int \<Rightarrow> completions_repo" where
  "demo_repo cls model context_limit =
     init cls demo_tokenizer demo_publish_service model 2000 1000 context_limit (4 / 5)"

definition scripted_api :: "(error + pyval) list \<Rightarrow> (error + pyval) \<Rightarrow> openai_api" where
  "scripted_api script rest =
     \<lparr>respond = (\<lambda>n req. if n < length script then script ! n else rest), calls = []\<rparr>"

definition chat_response :: "string \<Rightarrow> pyval" where
  "chat_response txt =
     PDict [(''choices'',
             PList [PDict [(''message'',
                            PDict [(''role'', PStr ''assistant''), (''content'', PStr txt)])]])]"

definition text_response :: "string \<Rightarrow> pyval" where
  "text_response txt = PDict [(''choices'', PList [PDict [(''text'', PStr txt)]])]"

section \<open>Auxiliary facts\<close>

declare retry.simps [simp del]

declare drain_sections.simps [simp del]

lemma str_in_iff: "str_in sub s \<longleftrightarrow> (\<exists>p q. s = p @ sub @ q)"
proof (induction s)
  case Nil
  then show ?case by auto
next
  case (Cons c cs)
  show ?case
  proof
    assume "str_in sub (c # cs)"
    then consider "prefix sub (c # cs)" | "str_in sub cs" by auto
    then show "\<exists>p q. c # cs = p @ sub @ q"
    proof cases
      case 1
      then obtain q where "c # cs = sub @ q" by (auto simp: prefix_def)
      then have "c # cs = [] @ sub @ q" by simp
      then show ?thesis by blast
    next
      case 2
      with Cons.IH obtain p q where "cs = p @ sub @ q" by blast
      then have "c # cs = (c # p) @ sub @ q" by simp
      then show ?thesis by blast
    qed
  next
    assume "\<exists>p q. c # cs = p @ sub @ q"
    then obtain p q where pq: "c # cs = p @ sub @ q" by blast
    show "str_in sub (c # cs)"
    proof (cases p)
      case Nil
      with pq have "prefix sub (c # cs)" by (simp add: prefix_def)
      then show ?thesis by simp
    next
      case (Cons a p')
      with pq have "cs = p' @ sub @ q" by simp
      with Cons.IH have "str_in sub cs" by blast
      then show ?thesis by simp
    qed
  qed
qed

lemma retry_returns: "f s = (Inr v, s') \<Longrightarrow> retry f n s = (Inr v, s')"
  by (simp add: retry.simps)

lemma retry_rejects:
  "f s = (Inl e, s') \<Longrightarrow> \<not> openai_retry_if_union e \<Longrightarrow> retry f n s = (Inl e, s')"
  by (simp add: retry.simps)

lemma retry_gives_up:
  "f s = (Inl e, s') \<Longrightarrow> openai_retry_if_union e \<Longrightarrow> 8 \<le> n \<Longrightarrow>
   retry f n s = (Inl (RetryError e), s')"
  by (simp add: retry.simps stop_after_attempt_def)

lemma retry_again:
  "f s = (Inl e, s') \<Longrightarrow> openai_retry_if_union e \<Longrightarrow> n < 8 \<Longrightarrow>
   retry f n s = retry f (Suc n) s'"
  by (simp add: retry.simps stop_after_attempt_def)

lemma drain_sections_eq:
  "drain_sections ps = ps\<lparr>sections_stack := take 1 (sections_stack ps)\<rparr>"
proof (induction ps rule: drain_sections.induct)
  case (1 ps)
  show ?case
  proof (cases "length (sections_stack ps) > 1")
    case True
    then have "drain_sections ps = drain_sections (end_section ps)"
      by (simp add: drain_sections.simps)
    also have "\<dots> = (end_section ps)\<lparr>sections_stack := take 1 (sections_stack (end_section ps))\<rparr>"
      using 1 True by simp
    also have "\<dots> = ps\<lparr>sections_stack := take 1 (sections_stack ps)\<rparr>"
      using True by (simp add: end_section_def take_butlast)
    finally show ?thesis .
  next
    case False
    then have "take 1 (sections_stack ps) = sections_stack ps" by simp
    with False show ?thesis by (simp add: drain_sections.simps)
  qed
qed

lemma chat_body_raises:
  assumes "respond api (length (calls api))
             (ChatCompletion_create (self_model self) (chat_messages sp ex p) t mt) = Inl e"
  shows "OpenAIChatCompletionsRepo_body p sp ex mt t (self, api) =
           (Inl e, self,
            api\<lparr>calls := calls api @
              [ChatCompletion_create (self_model self) (chat_messages sp ex p) t mt]\<rparr>)"
  using assms by (simp add: OpenAIChatCompletionsRepo_body_def create_def)

lemma text_body_raises:
  assumes "respond api (length (calls api))
             (Completion_create (self_model self) (text_prompt sp ex p) t mt) = Inl e"
  shows "OpenAICompletionsRepo_body p sp ex mt t (self, api) =
           (Inl e, self,
            api\<lparr>calls := calls api @
              [Completion_create (self_model self) (text_prompt sp ex p) t mt]\<rparr>)"
  using assms by (simp add: OpenAICompletionsRepo_body_def create_def)

lemma chat_body_shape:
  "\<exists>out lg. OpenAIChatCompletionsRepo_body p sp ex mt t (self, api) =
     (out, self\<lparr>self_log := lg\<rparr>,
      api\<lparr>calls := calls api @
        [ChatCompletion_create (self_model self) (chat_messages sp ex p) t mt]\<rparr>)"
proof (cases "respond api (length (calls api))
               (ChatCompletion_create (self_model self) (chat_messages sp ex p) t mt)")
  case (Inl e)
  then have "OpenAIChatCompletionsRepo_body p sp ex mt t (self, api) =
     (Inl e, self\<lparr>self_log := self_log self\<rparr>,
      api\<lparr>calls := calls api @
        [ChatCompletion_create (self_model self) (chat_messages sp ex p) t mt]\<rparr>)"
    by (simp add: chat_body_raises)
  then show ?thesis by blast
next
  case (Inr r)
  then show ?thesis
    by (auto simp add: OpenAIChatCompletionsRepo_body_def create_def log_event_def Let_def)
qed

lemma text_body_shape:
  "\<exists>out lg. OpenAICompletionsRepo_body p sp ex mt t (self, api) =
     (out, self\<lparr>self_log := lg\<rparr>,
      api\<lparr>calls := calls api @
        [Completion_create (self_model self) (text_prompt sp ex p) t mt]\<rparr>)"
proof (cases "respond api (length (calls api))
               (Completion_create (self_model self) (text_prompt sp ex p) t mt)")
  case (Inl e)
  then have "OpenAICompletionsRepo_body p sp ex mt t (self, api) =
     (Inl e, self\<lparr>self_log := self_log self\<rparr>,
      api\<lparr>calls := calls api @
        [Completion_create (self_model self) (text_prompt sp ex p) t mt]\<rparr>)"
    by (simp add: text_body_raises)
  then show ?thesis by blast
next
  case (Inr r)
  then show ?thesis
    by (auto simp add: OpenAICompletionsRepo_body_def create_def log_event_def Let_def)
qed

lemma retry_shape:
  assumes step: "\<And>self api. \<exists>out lg. f (self, api) =
            (out, self\<lparr>self_log := lg\<rparr>, api\<lparr>calls := calls api @ [rq (self_model self)]\<rparr>)"
  shows "\<exists>out lg k. retry f n (self, api) =
            (out, self\<lparr>self_log := lg\<rparr>,
             api\<lparr>calls := calls api @ replicate k (rq (self_model self))\<rparr>)
          \<and> 1 \<le> k \<and> (k + n \<le> 9 \<or> k = 1)"
proof (induction "8 - n" arbitrary: n self api rule: less_induct)
  case less
  obtain out lg where f: "f (self, api) =
      (out, self\<lparr>self_log := lg\<rparr>, api\<lparr>calls := calls api @ [rq (self_model self)]\<rparr>)"
    using step by blast
  let ?req = "rq (self_model self)"
  let ?s' = "(self\<lparr>self_log := lg\<rparr>, api\<lparr>calls := calls api @ [?req]\<rparr>)"
  have one: "retry f n (self, api) = (out', ?s') \<Longrightarrow> ?case" for out'
  proof -
    assume "retry f n (self, api) = (out', ?s')"
    then have "retry f n (self, api) =
        (out', self\<lparr>self_log := lg\<rparr>, api\<lparr>calls := calls api @ replicate 1 ?req\<rparr>)"
      by simp
    then show ?case by (metis le_refl)
  qed
  show ?case
  proof (cases out)
    case (Inr v)
    with f show ?thesis by (intro one) (rule retry_returns, simp)
  next
    case (Inl e)
    show ?thesis
    proof (cases "openai_retry_if_union e")
      case False
      with f Inl show ?thesis by (intro one) (rule retry_rejects, simp_all)
    next
      case True
      show ?thesis
      proof (cases "n < 8")
        case False
        with f Inl True show ?thesis by (intro one) (rule retry_gives_up, simp_all)
      next
        case n: True
        have again: "retry f n (self, api) = retry f (Suc n) ?s'"
          using f Inl True n by (intro retry_again[where e = e]) simp_all
        have "8 - Suc n < 8 - n" using n by simp
        from less[OF this, where self = "self\<lparr>self_log := lg\<rparr>"
            and api = "api\<lparr>calls := calls api @ [?req]\<rparr>"]
        obtain out' lg' k where k:
          "retry f (Suc n) ?s' =
             (out', self\<lparr>self_log := lg'\<rparr>,
              api\<lparr>calls := calls api @ ?req # replicate k ?req\<rparr>)"
          "1 \<le> k" "k + Suc n \<le> 9 \<or> k = 1"
          by auto
        have "retry f n (self, api) =
            (out', self\<lparr>self_log := lg'\<rparr>,
             api\<lparr>calls := calls api @ replicate (Suc k) ?req\<rparr>)"
          using again k(1) by simp
        moreover have "1 \<le> Suc k" by simp
        moreover have "Suc k + n \<le> 9 \<or> Suc k = 1" using k(3) n by auto
        ultimately show ?thesis by blast
      qed
    qed
  qed
qed

lemma retry_failures:
  assumes raises: "\<And>api e. (\<forall>req. respond api (length (calls api)) req = Inl e) \<Longrightarrow>
            f (self, api) = (Inl e, self, api\<lparr>calls := calls api @ [rq]\<rparr>)"
      and fails: "\<forall>i<k. openai_retry_if_union (errs i) \<and>
            (\<forall>req. respond api (length (calls api) + i) req = Inl (errs i))"
      and bound: "n + k \<le> 8"
  shows "retry f n (self, api) =
           retry f (n + k) (self, api\<lparr>calls := calls api @ replicate k rq\<rparr>)"
  using fails bound
proof (induction k arbitrary: n api errs)
  case 0
  then show ?case by simp
next
  case (Suc k)
  let ?api1 = "api\<lparr>calls := calls api @ [rq]\<rparr>"
  from Suc.prems(1) have e0: "openai_retry_if_union (errs 0)"
    and r0: "\<forall>req. respond api (length (calls api)) req = Inl (errs 0)"
    by auto
  from raises[OF r0] have f0: "f (self, api) = (Inl (errs 0), self, ?api1)" .
  have "retry f n (self, api) = retry f (Suc n) (self, ?api1)"
    using f0 e0 Suc.prems(2) by (intro retry_again[where e = "errs 0"]) simp_all
  also have "\<dots> = retry f (Suc n + k)
      (self, ?api1\<lparr>calls := calls ?api1 @ replicate k rq\<rparr>)"
  proof (rule Suc.IH[where errs = "\<lambda>i. errs (Suc i)"])
    show "\<forall>i<k. openai_retry_if_union (errs (Suc i)) \<and>
        (\<forall>req. respond ?api1 (length (calls ?api1) + i) req = Inl (errs (Suc i)))"
      using Suc.prems(1) by auto
    show "Suc n + k \<le> 8" using Suc.prems(2) by simp
  qed
  finally show ?case by (simp add: replicate_append_same)
qed

lemma retry_shape_first:
  assumes step: "\<And>self api. \<exists>out lg. f (self, api) =
            (out, self\<lparr>self_log := lg\<rparr>, api\<lparr>calls := calls api @ [rq (self_model self)]\<rparr>)"
  shows "\<exists>out lg k. retry f 1 (self, api) =
            (out, self\<lparr>self_log := lg\<rparr>,
             api\<lparr>calls := calls api @ replicate k (rq (self_model self))\<rparr>)
          \<and> 1 \<le> k \<and> k \<le> 8"
proof -
  from retry_shape[of f rq 1 self api, OF step]
  obtain out lg k where
    "retry f 1 (self, api) =
       (out, self\<lparr>self_log := lg\<rparr>,
        api\<lparr>calls := calls api @ replicate k (rq (self_model self))\<rparr>)"
    "1 \<le> k" "k + 1 \<le> 9 \<or> k = 1"
    by blast
  moreover from this have "k \<le> 8" by linarith
  ultimately show ?thesis by blast
qed

lemma chat_complete_shape:
  "\<exists>out lg k. OpenAIChatCompletionsRepo_complete p sp ex mt t (self, api) =
     (out, self\<lparr>self_log := lg\<rparr>,
      api\<lparr>calls := calls api @ replicate k
        (ChatCompletion_create (self_model self) (chat_messages sp ex p) t mt)\<rparr>)
     \<and> 1 \<le> k \<and> k \<le> 8"
  unfolding OpenAIChatCompletionsRepo_complete_def
  by (rule retry_shape_first
        [where rq = "\<lambda>m. ChatCompletion_create m (chat_messages sp ex p) t mt"])
     (rule chat_body_shape)

lemma text_complete_shape:
  "\<exists>out lg k. OpenAICompletionsRepo_complete p sp ex mt t (self, api) =
     (out, self\<lparr>self_log := lg\<rparr>,
      api\<lparr>calls := calls api @ replicate k
        (Completion_create (self_model self) (text_prompt sp ex p) t mt)\<rparr>)
     \<and> 1 \<le> k \<and> k \<le> 8"
  unfolding OpenAICompletionsRepo_complete_def
  by (rule retry_shape_first
        [where rq = "\<lambda>m. Completion_create m (text_prompt sp ex p) t mt"])
     (rule chat_body_shape text_body_shape)

lemma dispatch_shape:
  assumes "self_class self \<noteq> CompletionsRepo"
  shows "\<exists>out lg k req. dispatch_complete p sp ex mt t (self, api) =
     (out, self\<lparr>self_log := lg\<rparr>, api\<lparr>calls := calls api @ replicate k req\<rparr>)
     \<and> 1 \<le> k \<and> k \<le> 8 \<and> req_max_tokens req = mt"
proof (cases "self_class self")
  case CompletionsRepo
  with assms show ?thesis by simp
next
  case OpenAIChatCompletionsRepo
  from chat_complete_shape[of p sp ex mt t self api] obtain out lg k where
    "OpenAIChatCompletionsRepo_complete p sp ex mt t (self, api) =
     (out, self\<lparr>self_log := lg\<rparr>,
      api\<lparr>calls := calls api @ replicate k
        (ChatCompletion_create (self_model self) (chat_messages sp ex p) t mt)\<rparr>)"
    "1 \<le> k" "k \<le> 8" by blast
  with OpenAIChatCompletionsRepo have
    "dispatch_complete p sp ex mt t (self, api) =
     (out, self\<lparr>self_log := lg\<rparr>,
      api\<lparr>calls := calls api @ replicate k
        (ChatCompletion_create (self_model self) (chat_messages sp ex p) t mt)\<rparr>)
     \<and> 1 \<le> k \<and> k \<le> 8
     \<and> req_max_tokens
          (ChatCompletion_create (self_model self) (chat_messages sp ex p) t mt) = mt"
    by (simp add: dispatch_complete_def)
  then show ?thesis by blast
next
  case OpenAICompletionsRepo
  from text_complete_shape[of p sp ex mt t self api] obtain out lg k where
    "OpenAICompletionsRepo_complete p sp ex mt t (self, api) =
     (out, self\<lparr>self_log := lg\<rparr>,
      api\<lparr>calls := calls api @ replicate k
        (Completion_create (self_model self) (text_prompt sp ex p) t mt)\<rparr>)"
    "1 \<le> k" "k \<le> 8" by blast
  with OpenAICompletionsRepo have
    "dispatch_complete p sp ex mt t (self, api) =
     (out, self\<lparr>self_log := lg\<rparr>,
      api\<lparr>calls := calls api @ replicate k
        (Completion_create (self_model self) (text_prompt sp ex p) t mt)\<rparr>)
     \<and> 1 \<le> k \<and> k \<le> 8
     \<and> req_max_tokens
          (Completion_create (self_model self) (text_prompt sp ex p) t mt) = mt"
    by (simp add: dispatch_complete_def)
  then show ?thesis by blast
qed

lemma dispatch_frame:
  "\<exists>out lg api'. dispatch_complete p sp ex mt t (self, api) =
     (out, self\<lparr>self_log := lg\<rparr>, api')"
proof (cases "self_class self = CompletionsRepo")
  case True
  then have "dispatch_complete p sp ex mt t (self, api) =
      (Inl NotImplementedError, self\<lparr>self_log := self_log self\<rparr>, api)"
    by (simp add: dispatch_complete_def)
  then show ?thesis by blast
next
  case False
  from dispatch_shape[OF this] show ?thesis by blast
qed

lemma complete_eq:
  assumes "dispatch_complete prompt
             (case sp of None \<Rightarrow> ''You are a helpful assistant.'' | Some x \<Rightarrow> x)
             (case ex of None \<Rightarrow> [] | Some x \<Rightarrow> x)
             (min (self_max_tokens self)
                (self_context_limit self - int (length (self_tokenizer self prompt))))
             (case t of None \<Rightarrow> self_temperature self | Some x \<Rightarrow> x)
             (log_event Info ''Running completion'' self, api) = (out, self2, api2)"
  shows "complete self api prompt sp ex t =
     (out,
      (case out of
         Inr r \<Rightarrow> log_event Info ''Completed'' self2
       | Inl e \<Rightarrow>
          (case e of
             InvalidRequestError msg \<Rightarrow>
               if str_in gpt4_missing msg then
                 self2\<lparr>self_publish_service :=
                   publish_update (drain_sections (self_publish_service self2)) gpt4_warning\<rparr>
               else self2
           | _ \<Rightarrow> self2)),
      api2)"
  using assms by (simp add: complete_def Let_def split: sum.split error.split)

lemma foldl_append_each:
  "foldl (\<lambda>acc x. acc @ g x) acc xs = acc @ concat (map g xs)"
  by (induction xs arbitrary: acc) simp_all

lemma chat_messages_closed:
  "chat_messages s examples p =
     \<lparr>role = ''system'', content = s\<rparr>
     # concat (map (\<lambda>(a, b). [\<lparr>role = ''user'', content = a\<rparr>,
                               \<lparr>role = ''assistant'', content = b\<rparr>]) examples)
     @ [\<lparr>role = ''user'', content = p\<rparr>]"
proof -
  have "foldl (\<lambda>messages example.
              (messages @ [\<lparr>role = ''user'', content = fst example\<rparr>])
                @ [\<lparr>role = ''assistant'', content = snd example\<rparr>]) acc examples
        = acc @ concat (map (\<lambda>(a, b). [\<lparr>role = ''user'', content = a\<rparr>,
                               \<lparr>role = ''assistant'', content = b\<rparr>]) examples)" for acc
    using foldl_append_each[of "\<lambda>example. [\<lparr>role = ''user'', content = fst example\<rparr>,
        \<lparr>role = ''assistant'', content = snd example\<rparr>]" acc examples]
    by (simp add: case_prod_unfold)
  then show ?thesis by (simp add: chat_messages_def)
qed

lemma length_concat_pairs:
  "length (concat (map (\<lambda>(a, b). [f a, g b]) xs)) = 2 * length xs"
  by (induction xs) auto

lemma text_prompt_closed:
  "text_prompt s examples p =
     (s @ concat (map (\<lambda>(a, b). newline @ newline @ a @ newline @ b) examples))
     @ newline @ newline
     @ (s @ concat (map (\<lambda>(a, b). newline @ newline @ a @ newline @ b) examples))"
proof -
  have "foldl (\<lambda>p example. p @ newline @ newline @ fst example @ newline @ snd example)
          acc examples
        = acc @ concat (map (\<lambda>(a, b). newline @ newline @ a @ newline @ b) examples)" for acc
    using foldl_append_each[of
        "\<lambda>example. newline @ newline @ fst example @ newline @ snd example" acc examples]
    by (simp add: case_prod_unfold)
  then show ?thesis by (simp add: text_prompt_def Let_def)
qed

lemma complete_frame:
  "\<exists>out lg ps api'. complete self api prompt sp ex t =
     (out, self\<lparr>self_publish_service := ps, self_log := lg\<rparr>, api')"
proof -
  let ?self1 = "log_event Info ''Running completion'' self"
  obtain out lg api2 where d: "dispatch_complete prompt
             (case sp of None \<Rightarrow> ''You are a helpful assistant.'' | Some x \<Rightarrow> x)
             (case ex of None \<Rightarrow> [] | Some x \<Rightarrow> x)
             (min (self_max_tokens self)
                (self_context_limit self - int (length (self_tokenizer self prompt))))
             (case t of None \<Rightarrow> self_temperature self | Some x \<Rightarrow> x)
             (?self1, api) = (out, ?self1\<lparr>self_log := lg\<rparr>, api2)"
    using dispatch_frame by blast
  have s1: "?self1\<lparr>self_log := lg\<rparr> =
      self\<lparr>self_publish_service := self_publish_service self, self_log := lg\<rparr>"
    by (simp add: log_event_def)
  note eq = complete_eq[OF d]
  show ?thesis
  proof (cases out)
    case (Inr r)
    with eq have "complete self api prompt sp ex t =
      (out, self\<lparr>self_publish_service := self_publish_service self,
                 self_log := lg @ [(Info, ''Completed'')]\<rparr>, api2)"
      by (simp add: log_event_def)
    then show ?thesis by blast
  next
    case (Inl e)
    show ?thesis
    proof (cases "\<exists>msg. e = InvalidRequestError msg \<and> str_in gpt4_missing msg")
      case True
      then obtain msg where "e = InvalidRequestError msg" "str_in gpt4_missing msg" by blast
      with eq Inl have "complete self api prompt sp ex t =
        (out, self\<lparr>self_publish_service :=
                     publish_update (drain_sections (self_publish_service self)) gpt4_warning,
                   self_log := lg\<rparr>, api2)"
        by (simp add: log_event_def)
      then show ?thesis by blast
    next
      case False
      with eq Inl have "complete self api prompt sp ex t = (out, ?self1\<lparr>self_log := lg\<rparr>, api2)"
        by (cases e) simp_all
      with s1 show ?thesis by metis
    qed
  qed
qed

lemma complete_submits:
  assumes "self_class self \<noteq> CompletionsRepo"
  shows "\<exists>out self' k req. complete self api prompt sp ex t =
           (out, self', api\<lparr>calls := calls api @ replicate k req\<rparr>)
         \<and> 1 \<le> k \<and> k \<le> 8
         \<and> req_max_tokens req =
             min (self_max_tokens self)
               (self_context_limit self - int (length (self_tokenizer self prompt)))"
proof -
  let ?self1 = "log_event Info ''Running completion'' self"
  have "self_class ?self1 \<noteq> CompletionsRepo"
    using assms by (simp add: log_event_def)
  from dispatch_shape[OF this]
  obtain out lg k req where d: "dispatch_complete prompt
             (case sp of None \<Rightarrow> ''You are a helpful assistant.'' | Some x \<Rightarrow> x)
             (case ex of None \<Rightarrow> [] | Some x \<Rightarrow> x)
             (min (self_max_tokens self)
                (self_context_limit self - int (length (self_tokenizer self prompt))))
             (case t of None \<Rightarrow> self_temperature self | Some x \<Rightarrow> x)
             (?self1, api) =
             (out, ?self1\<lparr>self_log := lg\<rparr>, api\<lparr>calls := calls api @ replicate k req\<rparr>)"
    and k: "1 \<le> k" "k \<le> 8"
    and mt: "req_max_tokens req = min (self_max_tokens self)
                (self_context_limit self - int (length (self_tokenizer self prompt)))"
    by blast
  from complete_eq[OF d] k mt show ?thesis by blast
qed


lemma retry_failures_then:
  assumes raises: "\<And>api e. (\<forall>req. respond api (length (calls api)) req = Inl e) \<Longrightarrow>
            f (self, api) = (Inl e, self, api\<lparr>calls := calls api @ [rq]\<rparr>)"
      and fails: "\<forall>i<k. openai_retry_if_union (errs i) \<and>
            (\<forall>req. respond api (length (calls api) + i) req = Inl (errs i))"
      and bound: "n + k \<le> 8"
      and final: "f (self, api\<lparr>calls := calls api @ replicate k rq\<rparr>) = (out, s')"
      and ends: "\<And>e. out = Inl e \<Longrightarrow> \<not> openai_retry_if_union e"
  shows "retry f n (self, api) = (out, s')"
proof -
  have "retry f n (self, api) =
      retry f (n + k) (self, api\<lparr>calls := calls api @ replicate k rq\<rparr>)"
    using raises fails bound by (rule retry_failures)
  also have "\<dots> = (out, s')"
  proof (cases out)
    case (Inl e)
    show ?thesis unfolding Inl
      by (rule retry_rejects) (use final ends Inl in simp_all)
  next
    case (Inr v)
    show ?thesis unfolding Inr
      by (rule retry_returns) (use final Inr in simp)
  qed
  finally show ?thesis .
qed


lemma chat_body_raises_any:
  "(\<forall>req. respond api (length (calls api)) req = Inl e) \<Longrightarrow>
   OpenAIChatCompletionsRepo_body p sp ex mt t (self, api) =
     (Inl e, self,
      api\<lparr>calls := calls api @
        [ChatCompletion_create (self_model self) (chat_messages sp ex p) t mt]\<rparr>)"
  by (simp add: chat_body_raises)

lemma text_body_raises_any:
  "(\<forall>req. respond api (length (calls api)) req = Inl e) \<Longrightarrow>
   OpenAICompletionsRepo_body p sp ex mt t (self, api) =
     (Inl e, self,
      api\<lparr>calls := calls api @
        [Completion_create (self_model self) (text_prompt sp ex p) t mt]\<rparr>)"
  by (simp add: text_body_raises)

text \<open>What \<open>_complete\<close> of either formatter does once the upstream has failed retryably
  \<open>k\<close> times and then raises an exception that is not retried.\<close>

lemma dispatch_raises_after_failures:
  assumes cls: "self_class self = OpenAIChatCompletionsRepo \<or> self_class self = OpenAICompletionsRepo"
      and fails: "\<forall>i<k. openai_retry_if_union (errs i) \<and>
            (\<forall>req. respond api (length (calls api) + i) req = Inl (errs i))"
      and k: "k < 8"
      and last: "\<forall>req. respond api (length (calls api) + k) req = Inl e"
      and e: "\<not> openai_retry_if_union e"
  shows "\<exists>req. dispatch_complete p sp ex mt t (self, api) =
           (Inl e, self, api\<lparr>calls := calls api @ replicate (Suc k) req\<rparr>)"
proof -
  have gen: "retry f 1 (self, api) =
      (Inl e, self, api\<lparr>calls := calls api @ replicate (Suc k) rq\<rparr>)"
    if raises: "\<And>api e. (\<forall>req. respond api (length (calls api)) req = Inl e) \<Longrightarrow>
            f (self, api) = (Inl e, self, api\<lparr>calls := calls api @ [rq]\<rparr>)"
    for f :: "completions_repo \<times> openai_api \<Rightarrow> (error + pyval) \<times> completions_repo \<times> openai_api"
      and rq
  proof -
    let ?apik = "api\<lparr>calls := calls api @ replicate k rq\<rparr>"
    have "f (self, ?apik) = (Inl e, self, ?apik\<lparr>calls := calls ?apik @ [rq]\<rparr>)"
      using last by (intro raises) simp
    then have fin: "f (self, ?apik) =
        (Inl e, self, api\<lparr>calls := calls api @ replicate (Suc k) rq\<rparr>)"
      by (simp add: replicate_append_same)
    show ?thesis
      using raises fails _ fin
    proof (rule retry_failures_then)
      show "1 + k \<le> 8" using k by simp
      show "\<not> openai_retry_if_union e'" if "Inl e = Inl e'" for e' :: error
        using that e by simp
    qed
  qed
  from cls show ?thesis
  proof
    assume c: "self_class self = OpenAIChatCompletionsRepo"
    from gen[of "OpenAIChatCompletionsRepo_body p sp ex mt t", OF chat_body_raises_any] c
    show ?thesis
      by (simp add: dispatch_complete_def OpenAIChatCompletionsRepo_complete_def) blast
  next
    assume c: "self_class self = OpenAICompletionsRepo"
    from gen[of "OpenAICompletionsRepo_body p sp ex mt t", OF text_body_raises_any] c
    show ?thesis
      by (simp add: dispatch_complete_def OpenAICompletionsRepo_complete_def) blast
  qed
qed


lemma not_dict_cases: "v = PNone \<or> \<not> isinstance_dict v \<longleftrightarrow> \<not> isinstance_dict v"
  by (cases v) simp_all

lemma chat_body_invalid:
  assumes "\<forall>req. respond api (length (calls api)) req = Inr resp"
      and "\<not> isinstance_dict resp"
  shows "OpenAIChatCompletionsRepo_body p sp ex mt t (self, api) =
     (Inr (PStr ''''),
      log_event Error ''OpenAI chat completion returned invalid response'' self,
      api\<lparr>calls := calls api @
        [ChatCompletion_create (self_model self) (chat_messages sp ex p) t mt]\<rparr>)"
  using assms by (simp add: OpenAIChatCompletionsRepo_body_def create_def)

lemma text_body_invalid:
  assumes "\<forall>req. respond api (length (calls api)) req = Inr resp"
      and "\<not> isinstance_dict resp"
  shows "OpenAICompletionsRepo_body p sp ex mt t (self, api) =
     (Inr (PStr ''''),
      log_event Error ''OpenAI chat completion returned invalid response''
        (log_event Info ''Ran OpenAI completion'' self),
      api\<lparr>calls := calls api @
        [Completion_create (self_model self) (text_prompt sp ex p) t mt]\<rparr>)"
  using assms by (simp add: OpenAICompletionsRepo_body_def create_def Let_def)




lemma complete_after_invalid_request:
  assumes cls: "self_class self = OpenAIChatCompletionsRepo \<or> self_class self = OpenAICompletionsRepo"
      and k: "k < 8"
      and fails: "\<forall>i<k. openai_retry_if_union (errs i) \<and>
            (\<forall>req. respond api (length (calls api) + i) req = Inl (errs i))"
      and last: "\<forall>req. respond api (length (calls api) + k) req = Inl (InvalidRequestError msg)"
  shows "\<exists>req. complete self api prompt sp ex t =
           (Inl (InvalidRequestError msg),
            self\<lparr>self_publish_service :=
                   (if str_in gpt4_missing msg
                    then publish_update (drain_sections (self_publish_service self)) gpt4_warning
                    else self_publish_service self),
                 self_log := self_log self @ [(Info, ''Running completion'')]\<rparr>,
            api\<lparr>calls := calls api @ replicate (Suc k) req\<rparr>)"
proof -
  let ?self1 = "log_event Info ''Running completion'' self"
  have c1: "self_class ?self1 = OpenAIChatCompletionsRepo \<or> self_class ?self1 = OpenAICompletionsRepo"
    using cls by (simp add: log_event_def)
  have nr: "\<not> openai_retry_if_union (InvalidRequestError msg)"
    by (simp add: openai_retry_if_union_def)
  from dispatch_raises_after_failures[OF c1 fails k last nr]
  obtain req where d: "dispatch_complete prompt
             (case sp of None \<Rightarrow> ''You are a helpful assistant.'' | Some x \<Rightarrow> x)
             (case ex of None \<Rightarrow> [] | Some x \<Rightarrow> x)
             (min (self_max_tokens self)
                (self_context_limit self - int (length (self_tokenizer self prompt))))
             (case t of None \<Rightarrow> self_temperature self | Some x \<Rightarrow> x)
             (?self1, api) =
             (Inl (InvalidRequestError msg), ?self1,
              api\<lparr>calls := calls api @ replicate (Suc k) req\<rparr>)"
    by blast
  have "complete self api prompt sp ex t =
           (Inl (InvalidRequestError msg),
            self\<lparr>self_publish_service :=
                   (if str_in gpt4_missing msg
                    then publish_update (drain_sections (self_publish_service self)) gpt4_warning
                    else self_publish_service self),
                 self_log := self_log self @ [(Info, ''Running completion'')]\<rparr>,
            api\<lparr>calls := calls api @ replicate (Suc k) req\<rparr>)"
    unfolding complete_eq[OF d] by (simp add: log_event_def)
  then show ?thesis by blast
qed

lemmas demo_defs = demo_repo_def init_def demo_tokenizer_def demo_publish_service_def
  scripted_api_def


















section \<open>The claims\<close>

text \<open>
  C1: The text the raw-text formatter submits is the computed prefix (the system prompt
  followed by a blank line, the input, a newline and the output of each example, in
  order), a blank line, and the same prefix again. It does not depend on the prompt
  argument, which the body overwrites; every attempt of the call submits exactly this
  request, and there are between one and eight attempts.
\<close>

theorem text_prompt_duplicated:
  "text_prompt s examples p =
     (s @ concat (map (\<lambda>(a, b). newline @ newline @ a @ newline @ b) examples))
     @ newline @ newline
     @ (s @ concat (map (\<lambda>(a, b). newline @ newline @ a @ newline @ b) examples))
   \<and> text_prompt s examples p = text_prompt s examples p'
   \<and> (\<exists>out lg k.
        OpenAICompletionsRepo_complete p s examples mt t (self, api) =
          (out, self\<lparr>self_log := lg\<rparr>,
           api\<lparr>calls := calls api @ replicate k
             (Completion_create (self_model self)
                ((s @ concat (map (\<lambda>(a, b). newline @ newline @ a @ newline @ b) examples))
                 @ newline @ newline
                 @ (s @ concat (map (\<lambda>(a, b). newline @ newline @ a @ newline @ b) examples)))
                t mt)\<rparr>)
        \<and> 1 \<le> k \<and> k \<le> 8)"
proof (intro conjI)
  show "text_prompt s examples p =
     (s @ concat (map (\<lambda>(a, b). newline @ newline @ a @ newline @ b) examples))
     @ newline @ newline
     @ (s @ concat (map (\<lambda>(a, b). newline @ newline @ a @ newline @ b) examples))"
    by (rule text_prompt_closed)
  show "text_prompt s examples p = text_prompt s examples p'"
    by (simp add: text_prompt_def)
  show "\<exists>out lg k.
        OpenAICompletionsRepo_complete p s examples mt t (self, api) =
          (out, self\<lparr>self_log := lg\<rparr>,
           api\<lparr>calls := calls api @ replicate k
             (Completion_create (self_model self)
                ((s @ concat (map (\<lambda>(a, b). newline @ newline @ a @ newline @ b) examples))
                 @ newline @ newline
                 @ (s @ concat (map (\<lambda>(a, b). newline @ newline @ a @ newline @ b) examples)))
                t mt)\<rparr>)
        \<and> 1 \<le> k \<and> k \<le> 8"
    using text_complete_shape[of p s examples mt t self api]
    unfolding text_prompt_closed .
qed

text \<open>One example pair: the prefix appears twice, and another prompt gives the same text.\<close>

theorem text_prompt_duplicated_witness:
  "text_prompt ''S'' [(''a'', ''b'')] ''P'' =
     ''S'' @ newline @ newline @ ''a'' @ newline @ ''b'' @ newline @ newline
     @ ''S'' @ newline @ newline @ ''a'' @ newline @ ''b''
   \<and> text_prompt ''S'' [(''a'', ''b'')] ''P'' = text_prompt ''S'' [(''a'', ''b'')] ''Q''"
proof -
  note t = text_prompt_duplicated[of "''S''" "[(''a'', ''b'')]" "''P''" "''Q''" 100 1
      "demo_repo OpenAICompletionsRepo ''text-davinci-003'' 8192"
      "scripted_api [] (Inr (text_response ''ok''))"]
  from t have "text_prompt ''S'' [(''a'', ''b'')] ''P'' =
     ''S'' @ newline @ newline @ ''a'' @ newline @ ''b'' @ newline @ newline
     @ ''S'' @ newline @ newline @ ''a'' @ newline @ ''b''"
    by simp
  moreover from t have
    "text_prompt ''S'' [(''a'', ''b'')] ''P'' = text_prompt ''S'' [(''a'', ''b'')] ''Q''"
    by blast
  ultimately show ?thesis by blast
qed

text \<open>
  C2: (as amended) When the upstream answers, on the first attempt or after retried
  failures, with a response that is \<open>None\<close> or not a dict, \<open>_complete\<close> of both
  formatters returns the empty string without raising, after logging the invalid
  response at error severity. The guard looks no further than that: a dict is
  subscripted as it is.
\<close>

theorem invalid_response_gives_empty_text:
  assumes k: "k < 8"
      and fails: "\<forall>i<k. openai_retry_if_union (errs i) \<and>
            (\<forall>req. respond api (length (calls api) + i) req = Inl (errs i))"
      and last: "\<forall>req. respond api (length (calls api) + k) req = Inr resp"
      and invalid: "resp = PNone \<or> \<not> isinstance_dict resp"
  shows "OpenAIChatCompletionsRepo_complete p sp ex mt t (self, api) =
           (Inr (PStr ''''),
            self\<lparr>self_log := self_log self @
               [(Error, ''OpenAI chat completion returned invalid response'')]\<rparr>,
            api\<lparr>calls := calls api @ replicate (Suc k)
               (ChatCompletion_create (self_model self) (chat_messages sp ex p) t mt)\<rparr>)
       \<and> OpenAICompletionsRepo_complete p sp ex mt t (self, api) =
           (Inr (PStr ''''),
            self\<lparr>self_log := self_log self @
               [(Info, ''Ran OpenAI completion''),
                (Error, ''OpenAI chat completion returned invalid response'')]\<rparr>,
            api\<lparr>calls := calls api @ replicate (Suc k)
               (Completion_create (self_model self) (text_prompt sp ex p) t mt)\<rparr>)"
proof (intro conjI)
  from invalid have nd: "\<not> isinstance_dict resp" by (simp add: not_dict_cases)
  let ?rq = "ChatCompletion_create (self_model self) (chat_messages sp ex p) t mt"
  let ?apik = "api\<lparr>calls := calls api @ replicate k ?rq\<rparr>"
  have "OpenAIChatCompletionsRepo_body p sp ex mt t (self, ?apik) =
     (Inr (PStr ''''),
      log_event Error ''OpenAI chat completion returned invalid response'' self,
      ?apik\<lparr>calls := calls ?apik @ [?rq]\<rparr>)"
    using last nd by (intro chat_body_invalid) simp_all
  then have fin: "OpenAIChatCompletionsRepo_body p sp ex mt t (self, ?apik) =
     (Inr (PStr ''''),
      self\<lparr>self_log := self_log self @
         [(Error, ''OpenAI chat completion returned invalid response'')]\<rparr>,
      api\<lparr>calls := calls api @ replicate (Suc k) ?rq\<rparr>)"
    by (simp add: replicate_append_same log_event_def)
  show "OpenAIChatCompletionsRepo_complete p sp ex mt t (self, api) =
     (Inr (PStr ''''),
      self\<lparr>self_log := self_log self @
         [(Error, ''OpenAI chat completion returned invalid response'')]\<rparr>,
      api\<lparr>calls := calls api @ replicate (Suc k) ?rq\<rparr>)"
    unfolding OpenAIChatCompletionsRepo_complete_def
    using chat_body_raises_any fails _ fin
  proof (rule retry_failures_then)
    show "1 + k \<le> 8" using k by simp
    show "\<not> openai_retry_if_union e'" if "Inr (PStr '''') = Inl e'" for e' :: error
      using that by simp
  qed
next
  from invalid have nd: "\<not> isinstance_dict resp" by (simp add: not_dict_cases)
  let ?rq = "Completion_create (self_model self) (text_prompt sp ex p) t mt"
  let ?apik = "api\<lparr>calls := calls api @ replicate k ?rq\<rparr>"
  have "OpenAICompletionsRepo_body p sp ex mt t (self, ?apik) =
     (Inr (PStr ''''),
      log_event Error ''OpenAI chat completion returned invalid response''
        (log_event Info ''Ran OpenAI completion'' self),
      ?apik\<lparr>calls := calls ?apik @ [?rq]\<rparr>)"
    using last nd by (intro text_body_invalid) simp_all
  then have fin: "OpenAICompletionsRepo_body p sp ex mt t (self, ?apik) =
     (Inr (PStr ''''),
      self\<lparr>self_log := self_log self @
         [(Info, ''Ran OpenAI completion''),
          (Error, ''OpenAI chat completion returned invalid response'')]\<rparr>,
      api\<lparr>calls := calls api @ replicate (Suc k) ?rq\<rparr>)"
    by (simp add: replicate_append_same log_event_def)
  show "OpenAICompletionsRepo_complete p sp ex mt t (self, api) =
     (Inr (PStr ''''),
      self\<lparr>self_log := self_log self @
         [(Info, ''Ran OpenAI completion''),
          (Error, ''OpenAI chat completion returned invalid response'')]\<rparr>,
      api\<lparr>calls := calls api @ replicate (Suc k) ?rq\<rparr>)"
    unfolding OpenAICompletionsRepo_complete_def
    using text_body_raises_any fails _ fin
  proof (rule retry_failures_then)
    show "1 + k \<le> 8" using k by simp
    show "\<not> openai_retry_if_union e'" if "Inr (PStr '''') = Inl e'" for e' :: error
      using that by simp
  qed
qed

text \<open>A connection error, then no response object at all: both formatters return the
  empty string.\<close>

theorem invalid_response_gives_empty_text_witness:
  "fst (OpenAIChatCompletionsRepo_complete ''hi'' ''s'' [] 100 1
          (demo_repo OpenAIChatCompletionsRepo ''gpt-4'' 8192,
           scripted_api [Inl APIConnectionError] (Inr PNone))) = Inr (PStr '''')
   \<and> fst (OpenAICompletionsRepo_complete ''hi'' ''s'' [] 100 1
          (demo_repo OpenAICompletionsRepo ''text-davinci-003'' 8192,
           scripted_api [Inl APIConnectionError] (Inr PNone))) = Inr (PStr '''')"
proof -
  let ?A = "scripted_api [Inl APIConnectionError] (Inr PNone)"
  have k: "(1::nat) < 8" by simp
  have f: "\<forall>i<1. openai_retry_if_union ((\<lambda>i. APIConnectionError) i) \<and>
      (\<forall>req. respond ?A (length (calls ?A) + i) req = Inl ((\<lambda>i. APIConnectionError) i))"
    by (simp add: scripted_api_def openai_retry_if_union_def)
  have r: "\<forall>req. respond ?A (length (calls ?A) + 1) req = Inr PNone"
    by (simp add: scripted_api_def)
  have n: "PNone = PNone \<or> \<not> isinstance_dict PNone"
    by simp
  from invalid_response_gives_empty_text[OF k f r n, of "''hi''" "''s''" "[]" 100 1
      "demo_repo OpenAIChatCompletionsRepo ''gpt-4'' 8192"]
    invalid_response_gives_empty_text[OF k f r n, of "''hi''" "''s''" "[]" 100 1
      "demo_repo OpenAICompletionsRepo ''text-davinci-003'' 8192"]
  show ?thesis by simp
qed

text \<open>A response object without \<open>"choices"\<close> is a dict, passes the guard, and the
  subscript raises \<open>KeyError\<close> in both formatters; the exception is not retried.\<close>

theorem missing_choices_raises_counterexample:
  "fst (OpenAIChatCompletionsRepo_complete ''hi'' ''s'' [] 100 1
          (demo_repo OpenAIChatCompletionsRepo ''gpt-4'' 8192,
           scripted_api [] (Inr (PDict [(''id'', PStr ''cmpl-1'')]))))
     = Inl (KeyError (KStr ''choices''))
   \<and> fst (OpenAICompletionsRepo_complete ''hi'' ''s'' [] 100 1
          (demo_repo OpenAICompletionsRepo ''text-davinci-003'' 8192,
           scripted_api [] (Inr (PDict [(''id'', PStr ''cmpl-1'')]))))
     = Inl (KeyError (KStr ''choices''))"
  by (simp add: OpenAIChatCompletionsRepo_complete_def OpenAICompletionsRepo_complete_def
      OpenAIChatCompletionsRepo_body_def OpenAICompletionsRepo_body_def retry.simps create_def
      scripted_api_def openai_retry_if_union_def Let_def)

text \<open>
  C3: (as amended) When the submission ends by raising an invalid-request error whose
  message contains \<open>`gpt-4` does not exist\<close> (on the first attempt or after retried
  failures, and whatever model the instance asked for), \<open>complete\<close> pops the section
  stack down to its root section, leaving depth exactly 1 for every stack that holds
  one, publishes the warning exactly once, and raises that same error.
\<close>

theorem model_access_error_warns_and_reraises:
  assumes cls: "self_class self = OpenAIChatCompletionsRepo \<or> self_class self = OpenAICompletionsRepo"
      and k: "k < 8"
      and fails: "\<forall>i<k. openai_retry_if_union (errs i) \<and>
            (\<forall>req. respond api (length (calls api) + i) req = Inl (errs i))"
      and last: "\<forall>req. respond api (length (calls api) + k) req = Inl (InvalidRequestError msg)"
      and gpt4: "str_in gpt4_missing msg"
  shows "\<exists>self' api'.
           complete self api prompt system_prompt examples temperature =
             (Inl (InvalidRequestError msg), self', api')
         \<and> sections_stack (self_publish_service self') =
             take 1 (sections_stack (self_publish_service self))
         \<and> (sections_stack (self_publish_service self) \<noteq> [] \<longrightarrow>
              length (sections_stack (self_publish_service self')) = 1)
         \<and> published (self_publish_service self') =
             published (self_publish_service self) @ [gpt4_warning]"
proof -
  from complete_after_invalid_request[OF cls k fails last,
      of prompt system_prompt examples temperature]
  obtain req where c: "complete self api prompt system_prompt examples temperature =
           (Inl (InvalidRequestError msg),
            self\<lparr>self_publish_service :=
                   publish_update (drain_sections (self_publish_service self)) gpt4_warning,
                 self_log := self_log self @ [(Info, ''Running completion'')]\<rparr>,
            api\<lparr>calls := calls api @ replicate (Suc k) req\<rparr>)"
    using gpt4 by auto
  have "length (take 1 xs) = 1" if "xs \<noteq> []" for xs :: "string list"
    using that by (cases xs) simp_all
  then show ?thesis
    unfolding c by (simp add: publish_update_def drain_sections_eq)
qed

text \<open>A timeout, then the model-access error, with three sections open: the stack is
  drained to its root, one warning is published, the error comes back.\<close>

theorem model_access_error_warns_and_reraises_witness:
  "\<exists>self' api'.
     complete (demo_repo OpenAIChatCompletionsRepo ''gpt-4'' 8192)
       (scripted_api [Inl Timeout]
          (Inl (InvalidRequestError ''The model: `gpt-4` does not exist'')))
       ''hi'' None None None =
       (Inl (InvalidRequestError ''The model: `gpt-4` does not exist''), self', api')
     \<and> sections_stack (self_publish_service self') = [''root'']
     \<and> length (sections_stack (self_publish_service self')) = 1
     \<and> published (self_publish_service self') = [gpt4_warning]"
proof -
  let ?R = "demo_repo OpenAIChatCompletionsRepo ''gpt-4'' 8192"
  let ?m = "''The model: `gpt-4` does not exist''"
  let ?A = "scripted_api [Inl Timeout] (Inl (InvalidRequestError ?m))"
  have c: "self_class ?R = OpenAIChatCompletionsRepo \<or> self_class ?R = OpenAICompletionsRepo"
    by (simp add: demo_defs)
  have k: "(1::nat) < 8" by simp
  have f: "\<forall>i<1. openai_retry_if_union ((\<lambda>i. Timeout) i) \<and>
      (\<forall>req. respond ?A (length (calls ?A) + i) req = Inl ((\<lambda>i. Timeout) i))"
    by (simp add: scripted_api_def openai_retry_if_union_def)
  have l: "\<forall>req. respond ?A (length (calls ?A) + 1) req = Inl (InvalidRequestError ?m)"
    by (simp add: scripted_api_def)
  have g: "str_in gpt4_missing ?m"
    by (simp add: gpt4_missing_def)
  have s: "sections_stack (self_publish_service ?R) = [''root'', ''plan'', ''step'']"
    "published (self_publish_service ?R) = []"
    by (simp_all add: demo_defs)
  from model_access_error_warns_and_reraises[OF c k f l g, of "''hi''" None None None]
  show ?thesis unfolding s by simp
qed

text \<open>An instance configured for \<open>gpt-3.5-turbo\<close> that is refused that model: the
  message does not mention \<open>gpt-4\<close>, so the three sections stay open and nothing is
  published.\<close>

theorem other_model_access_error_counterexample:
  "fst (complete (demo_repo OpenAIChatCompletionsRepo ''gpt-3.5-turbo'' 8192)
         (scripted_api [] (Inl (InvalidRequestError
            ''The model: `gpt-3.5-turbo` does not exist'')))
         ''hi'' None None None)
     = Inl (InvalidRequestError ''The model: `gpt-3.5-turbo` does not exist'')
   \<and> sections_stack (self_publish_service (fst (snd
         (complete (demo_repo OpenAIChatCompletionsRepo ''gpt-3.5-turbo'' 8192)
            (scripted_api [] (Inl (InvalidRequestError
               ''The model: `gpt-3.5-turbo` does not exist'')))
            ''hi'' None None None))))
     = [''root'', ''plan'', ''step'']
   \<and> published (self_publish_service (fst (snd
         (complete (demo_repo OpenAIChatCompletionsRepo ''gpt-3.5-turbo'' 8192)
            (scripted_api [] (Inl (InvalidRequestError
               ''The model: `gpt-3.5-turbo` does not exist'')))
            ''hi'' None None None))))
     = []"
  by (simp add: complete_def dispatch_complete_def OpenAIChatCompletionsRepo_complete_def
      OpenAIChatCompletionsRepo_body_def retry.simps create_def stop_after_attempt_def
      demo_defs openai_retry_if_union_def Let_def log_event_def gpt4_missing_def)

text \<open>
  C4: For a prompt with fewer tokens than \<open>context_limit\<close>, every request that
  \<open>complete\<close> has a formatter submit carries
  \<open>max_tokens = min(self.max_tokens, self.context_limit - length)\<close>, and at least one
  request is submitted.
\<close>

theorem max_tokens_within_context:
  assumes "self_class self = OpenAIChatCompletionsRepo \<or> self_class self = OpenAICompletionsRepo"
      and "int (length (self_tokenizer self prompt)) < self_context_limit self"
  shows "\<exists>outcome self' k req.
           complete self api prompt system_prompt examples temperature =
             (outcome, self', api\<lparr>calls := calls api @ replicate k req\<rparr>)
         \<and> 1 \<le> k
         \<and> req_max_tokens req =
             min (self_max_tokens self)
               (self_context_limit self - int (length (self_tokenizer self prompt)))"
proof -
  from assms(1) have "self_class self \<noteq> CompletionsRepo" by auto
  from complete_submits[OF this, of api prompt system_prompt examples temperature]
  show ?thesis by blast
qed

text \<open>Two tokens against a window of 8192 and a budget of 2000: the request carries 2000.\<close>

theorem max_tokens_within_context_witness:
  "int (length (self_tokenizer (demo_repo OpenAIChatCompletionsRepo ''gpt-4'' 8192) ''hi''))
     < self_context_limit (demo_repo OpenAIChatCompletionsRepo ''gpt-4'' 8192)
   \<and> (\<exists>outcome self' k req.
        complete (demo_repo OpenAIChatCompletionsRepo ''gpt-4'' 8192)
          (scripted_api [] (Inr (chat_response ''ok''))) ''hi'' None None None =
          (outcome, self',
           (scripted_api [] (Inr (chat_response ''ok'')))
             \<lparr>calls := calls (scripted_api [] (Inr (chat_response ''ok''))) @ replicate k req\<rparr>)
        \<and> 1 \<le> k \<and> req_max_tokens req = 2000)"
proof -
  let ?R = "demo_repo OpenAIChatCompletionsRepo ''gpt-4'' 8192"
  have c: "self_class ?R = OpenAIChatCompletionsRepo \<or> self_class ?R = OpenAICompletionsRepo"
    by (simp add: demo_defs)
  have l: "int (length (self_tokenizer ?R ''hi'')) < self_context_limit ?R"
    by (simp add: demo_defs)
  have m: "min (self_max_tokens ?R)
             (self_context_limit ?R - int (length (self_tokenizer ?R ''hi''))) = 2000"
    by (simp add: demo_defs)
  from max_tokens_within_context[OF c l,
      of "scripted_api [] (Inr (chat_response ''ok''))" None None None]
  show ?thesis unfolding m using l by simp
qed

text \<open>
  C5: The chat-style formatter's message list is the system message, then a user and an
  assistant message for each example in order, then the user message with the prompt:
  \<open>2n + 2\<close> messages for \<open>n\<close> examples. Every attempt of the call submits exactly
  this list, and there are between one and eight attempts.
\<close>

theorem chat_message_sequence:
  "chat_messages s examples p =
     \<lparr>role = ''system'', content = s\<rparr>
     # concat (map (\<lambda>(a, b). [\<lparr>role = ''user'', content = a\<rparr>,
                               \<lparr>role = ''assistant'', content = b\<rparr>]) examples)
     @ [\<lparr>role = ''user'', content = p\<rparr>]
   \<and> length (chat_messages s examples p) = 2 * length examples + 2
   \<and> (\<exists>out lg k.
        OpenAIChatCompletionsRepo_complete p s examples mt t (self, api) =
          (out, self\<lparr>self_log := lg\<rparr>,
           api\<lparr>calls := calls api @ replicate k
             (ChatCompletion_create (self_model self)
                (\<lparr>role = ''system'', content = s\<rparr>
                 # concat (map (\<lambda>(a, b). [\<lparr>role = ''user'', content = a\<rparr>,
                               \<lparr>role = ''assistant'', content = b\<rparr>]) examples)
                 @ [\<lparr>role = ''user'', content = p\<rparr>]) t mt)\<rparr>)
        \<and> 1 \<le> k \<and> k \<le> 8)"
proof (intro conjI)
  show "chat_messages s examples p =
     \<lparr>role = ''system'', content = s\<rparr>
     # concat (map (\<lambda>(a, b). [\<lparr>role = ''user'', content = a\<rparr>,
                               \<lparr>role = ''assistant'', content = b\<rparr>]) examples)
     @ [\<lparr>role = ''user'', content = p\<rparr>]"
    by (rule chat_messages_closed)
  show "length (chat_messages s examples p) = 2 * length examples + 2"
    by (simp add: chat_messages_closed length_concat_pairs)
  show "\<exists>out lg k.
        OpenAIChatCompletionsRepo_complete p s examples mt t (self, api) =
          (out, self\<lparr>self_log := lg\<rparr>,
           api\<lparr>calls := calls api @ replicate k
             (ChatCompletion_create (self_model self)
                (\<lparr>role = ''system'', content = s\<rparr>
                 # concat (map (\<lambda>(a, b). [\<lparr>role = ''user'', content = a\<rparr>,
                               \<lparr>role = ''assistant'', content = b\<rparr>]) examples)
                 @ [\<lparr>role = ''user'', content = p\<rparr>]) t mt)\<rparr>)
        \<and> 1 \<le> k \<and> k \<le> 8"
    using chat_complete_shape[of p s examples mt t self api]
    unfolding chat_messages_closed .
qed

text \<open>Two examples give the six messages in order.\<close>

theorem chat_message_sequence_witness:
  "chat_messages ''s'' [(''a1'', ''b1''), (''a2'', ''b2'')] ''p'' =
     [\<lparr>role = ''system'', content = ''s''\<rparr>,
      \<lparr>role = ''user'', content = ''a1''\<rparr>, \<lparr>role = ''assistant'', content = ''b1''\<rparr>,
      \<lparr>role = ''user'', content = ''a2''\<rparr>, \<lparr>role = ''assistant'', content = ''b2''\<rparr>,
      \<lparr>role = ''user'', content = ''p''\<rparr>]
   \<and> length (chat_messages ''s'' [(''a1'', ''b1''), (''a2'', ''b2'')] ''p'') = 6"
  using chat_message_sequence[of "''s''" "[(''a1'', ''b1''), (''a2'', ''b2'')]" "''p''" 100 1
      "demo_repo OpenAIChatCompletionsRepo ''gpt-4'' 8192"
      "scripted_api [] (Inr (chat_response ''ok''))"]
  by simp






text \<open>
  C8: For a prompt with more tokens than \<open>context_limit\<close>, the \<open>max_tokens\<close> that
  \<open>complete\<close> computes is negative and reaches the upstream request as it is: nothing
  clamps it.
\<close>

theorem max_tokens_negative_beyond_context:
  assumes "self_class self = OpenAIChatCompletionsRepo \<or> self_class self = OpenAICompletionsRepo"
      and "int (length (self_tokenizer self prompt)) > self_context_limit self"
  shows "\<exists>outcome self' k req.
           complete self api prompt system_prompt examples temperature =
             (outcome, self', api\<lparr>calls := calls api @ replicate k req\<rparr>)
         \<and> 1 \<le> k
         \<and> req_max_tokens req =
             min (self_max_tokens self)
               (self_context_limit self - int (length (self_tokenizer self prompt)))
         \<and> req_max_tokens req < 0"
proof -
  from assms(1) have "self_class self \<noteq> CompletionsRepo" by auto
  from complete_submits[OF this, of api prompt system_prompt examples temperature]
  obtain out self' k req where
    c: "complete self api prompt system_prompt examples temperature =
         (out, self', api\<lparr>calls := calls api @ replicate k req\<rparr>)"
    and k: "1 \<le> k"
    and mt: "req_max_tokens req =
             min (self_max_tokens self)
               (self_context_limit self - int (length (self_tokenizer self prompt)))"
    by blast
  from mt assms(2) have "req_max_tokens req < 0" by simp
  with c k mt show ?thesis by blast
qed

text \<open>Five tokens against a window of three: the request carries \<open>max_tokens = -2\<close>.\<close>

theorem max_tokens_negative_beyond_context_witness:
  "int (length (self_tokenizer (demo_repo OpenAICompletionsRepo ''text-davinci-003'' 3) ''hello''))
     > self_context_limit (demo_repo OpenAICompletionsRepo ''text-davinci-003'' 3)
   \<and> (\<exists>outcome self' k req.
        complete (demo_repo OpenAICompletionsRepo ''text-davinci-003'' 3)
          (scripted_api [] (Inr (text_response ''ok''))) ''hello'' None None None =
          (outcome, self',
           (scripted_api [] (Inr (text_response ''ok'')))
             \<lparr>calls := calls (scripted_api [] (Inr (text_response ''ok''))) @ replicate k req\<rparr>)
        \<and> 1 \<le> k \<and> req_max_tokens req = - 2)"
proof -
  let ?R = "demo_repo OpenAICompletionsRepo ''text-davinci-003'' 3"
  have c: "self_class ?R = OpenAIChatCompletionsRepo \<or> self_class ?R = OpenAICompletionsRepo"
    by (simp add: demo_defs)
  have l: "int (length (self_tokenizer ?R ''hello'')) > self_context_limit ?R"
    by (simp add: demo_defs)
  have m: "min (self_max_tokens ?R)
             (self_context_limit ?R - int (length (self_tokenizer ?R ''hello''))) = - 2"
    by (simp add: demo_defs)
  from max_tokens_negative_beyond_context[OF c l,
      of "scripted_api [] (Inr (text_response ''ok''))" None None None]
  show ?thesis unfolding m using l by auto
qed

text \<open>
  C9: When the submission ends by raising an invalid-request error, \<open>complete\<close> raises
  the same error, no further attempt is made, and the publishing service is touched
  exactly when the message contains \<open>`gpt-4` does not exist\<close> as a substring, whatever
  model the instance is configured with; otherwise the service is left as it was.
\<close>

theorem model_access_case_is_substring_match:
  assumes cls: "self_class self = OpenAIChatCompletionsRepo \<or> self_class self = OpenAICompletionsRepo"
      and k: "k < 8"
      and fails: "\<forall>i<k. openai_retry_if_union (errs i) \<and>
            (\<forall>req. respond api (length (calls api) + i) req = Inl (errs i))"
      and last: "\<forall>req. respond api (length (calls api) + k) req = Inl (InvalidRequestError msg)"
  shows "\<exists>self' req.
           complete self api prompt system_prompt examples temperature =
             (Inl (InvalidRequestError msg), self',
              api\<lparr>calls := calls api @ replicate (Suc k) req\<rparr>)
         \<and> self_publish_service self' =
             (if \<exists>before after. msg = before @ gpt4_missing @ after
              then publish_update (drain_sections (self_publish_service self)) gpt4_warning
              else self_publish_service self)
         \<and> (self_publish_service self' = self_publish_service self
              \<longleftrightarrow> \<not> str_in gpt4_missing msg)"
proof -
  from complete_after_invalid_request[OF cls k fails last,
      of prompt system_prompt examples temperature]
  obtain req where c: "complete self api prompt system_prompt examples temperature =
           (Inl (InvalidRequestError msg),
            self\<lparr>self_publish_service :=
                   (if str_in gpt4_missing msg
                    then publish_update (drain_sections (self_publish_service self)) gpt4_warning
                    else self_publish_service self),
                 self_log := self_log self @ [(Info, ''Running completion'')]\<rparr>,
            api\<lparr>calls := calls api @ replicate (Suc k) req\<rparr>)"
    by blast
  have neq: "publish_update (drain_sections ps) gpt4_warning \<noteq> ps" for ps
  proof
    assume "publish_update (drain_sections ps) gpt4_warning = ps"
    then have "published (publish_update (drain_sections ps) gpt4_warning) = published ps"
      by simp
    then show False by (simp add: publish_update_def drain_sections_eq)
  qed
  let ?self' = "self\<lparr>self_publish_service :=
                   (if str_in gpt4_missing msg
                    then publish_update (drain_sections (self_publish_service self)) gpt4_warning
                    else self_publish_service self),
                 self_log := self_log self @ [(Info, ''Running completion'')]\<rparr>"
  have "complete self api prompt system_prompt examples temperature =
             (Inl (InvalidRequestError msg), ?self',
              api\<lparr>calls := calls api @ replicate (Suc k) req\<rparr>)
         \<and> self_publish_service ?self' =
             (if \<exists>before after. msg = before @ gpt4_missing @ after
              then publish_update (drain_sections (self_publish_service self)) gpt4_warning
              else self_publish_service self)
         \<and> (self_publish_service ?self' = self_publish_service self
              \<longleftrightarrow> \<not> str_in gpt4_missing msg)"
    using c neq by (simp add: str_in_iff)
  then show ?thesis by blast
qed

text \<open>An instance configured for \<open>text-davinci-003\<close> still takes the special case on the
  \<open>gpt-4\<close> message, and a \<open>gpt-4\<close> instance does not take it on another message.\<close>

theorem model_access_case_is_substring_match_witness:
  "(\<exists>self' req.
     complete (demo_repo OpenAICompletionsRepo ''text-davinci-003'' 8192)
       (scripted_api [] (Inl (InvalidRequestError ''The model: `gpt-4` does not exist'')))
       ''hi'' None None None =
       (Inl (InvalidRequestError ''The model: `gpt-4` does not exist''), self',
        (scripted_api [] (Inl (InvalidRequestError ''The model: `gpt-4` does not exist'')))
          \<lparr>calls := [req]\<rparr>)
     \<and> self_publish_service self' =
         \<lparr>sections_stack = [''root''], published = [gpt4_warning]\<rparr>)
   \<and> (\<exists>self' req.
     complete (demo_repo OpenAIChatCompletionsRepo ''gpt-4'' 8192)
       (scripted_api [] (Inl (InvalidRequestError ''Unrecognized request argument'')))
       ''hi'' None None None =
       (Inl (InvalidRequestError ''Unrecognized request argument''), self',
        (scripted_api [] (Inl (InvalidRequestError ''Unrecognized request argument'')))
          \<lparr>calls := [req]\<rparr>)
     \<and> self_publish_service self' = demo_publish_service)"
proof -
  let ?R1 = "demo_repo OpenAICompletionsRepo ''text-davinci-003'' 8192"
  let ?m1 = "''The model: `gpt-4` does not exist''"
  let ?A1 = "scripted_api [] (Inl (InvalidRequestError ?m1))"
  let ?R2 = "demo_repo OpenAIChatCompletionsRepo ''gpt-4'' 8192"
  let ?m2 = "''Unrecognized request argument''"
  let ?A2 = "scripted_api [] (Inl (InvalidRequestError ?m2))"
  have c1: "self_class ?R1 = OpenAIChatCompletionsRepo \<or> self_class ?R1 = OpenAICompletionsRepo"
    and c2: "self_class ?R2 = OpenAIChatCompletionsRepo \<or> self_class ?R2 = OpenAICompletionsRepo"
    by (simp_all add: demo_defs)
  have k: "(0::nat) < 8" by simp
  have f1: "\<forall>i<0. openai_retry_if_union ((\<lambda>i. Timeout) i) \<and>
      (\<forall>req. respond ?A1 (length (calls ?A1) + i) req = Inl ((\<lambda>i. Timeout) i))"
    and f2: "\<forall>i<0. openai_retry_if_union ((\<lambda>i. Timeout) i) \<and>
      (\<forall>req. respond ?A2 (length (calls ?A2) + i) req = Inl ((\<lambda>i. Timeout) i))"
    by simp_all
  have l1: "\<forall>req. respond ?A1 (length (calls ?A1) + 0) req = Inl (InvalidRequestError ?m1)"
    and l2: "\<forall>req. respond ?A2 (length (calls ?A2) + 0) req = Inl (InvalidRequestError ?m2)"
    by (simp_all add: scripted_api_def)
  have g1: "\<exists>before after. ?m1 = before @ gpt4_missing @ after"
    unfolding str_in_iff[symmetric] by (simp add: gpt4_missing_def)
  have g2: "\<not> (\<exists>before after. ?m2 = before @ gpt4_missing @ after)"
    unfolding str_in_iff[symmetric] by (simp add: gpt4_missing_def)
  have p: "self_publish_service ?R1 = demo_publish_service"
    "self_publish_service ?R2 = demo_publish_service"
    "calls ?A1 = []" "calls ?A2 = []"
    by (simp_all add: demo_repo_def init_def scripted_api_def)
  have d: "publish_update (drain_sections demo_publish_service) gpt4_warning =
      \<lparr>sections_stack = [''root''], published = [gpt4_warning]\<rparr>"
    by (simp add: drain_sections_eq publish_update_def demo_publish_service_def)
  from model_access_case_is_substring_match[OF c1 k f1 l1, of "''hi''" None None None]
  have "\<exists>self' req.
     complete ?R1 ?A1 ''hi'' None None None =
       (Inl (InvalidRequestError ?m1), self', ?A1\<lparr>calls := [req]\<rparr>)
     \<and> self_publish_service self' =
         \<lparr>sections_stack = [''root''], published = [gpt4_warning]\<rparr>"
    unfolding p if_P[OF g1] d by auto
  moreover
  from model_access_case_is_substring_match[OF c2 k f2 l2, of "''hi''" None None None]
  have "\<exists>self' req.
     complete ?R2 ?A2 ''hi'' None None None =
       (Inl (InvalidRequestError ?m2), self', ?A2\<lparr>calls := [req]\<rparr>)
     \<and> self_publish_service self' = demo_publish_service"
    unfolding p if_not_P[OF g2] by auto
  ultimately show ?thesis by blast
qed

text \<open>
  C10: Whatever the upstream does, the instance that \<open>complete\<close> leaves behind has the
  model name, \<open>max_tokens\<close>, \<open>min_tokens\<close>, \<open>context_limit\<close> and
  \<open>temperature\<close> (and the class and tokenizer) it was constructed with.
\<close>

theorem complete_keeps_configuration:
  "case complete self api prompt system_prompt examples temperature of
     (outcome, self', api') \<Rightarrow>
        self_model self' = self_model self
      \<and> self_max_tokens self' = self_max_tokens self
      \<and> self_min_tokens self' = self_min_tokens self
      \<and> self_context_limit self' = self_context_limit self
      \<and> self_temperature self' = self_temperature self
      \<and> self_class self' = self_class self
      \<and> self_tokenizer self' = self_tokenizer self"
proof -
  obtain out lg ps api' where
    "complete self api prompt system_prompt examples temperature =
       (out, self\<lparr>self_publish_service := ps, self_log := lg\<rparr>, api')"
    using complete_frame by blast
  then show ?thesis by simp
qed

text \<open>A call that exhausts its attempts leaves the configuration as constructed.\<close>

theorem complete_keeps_configuration_witness:
  "self_model (fst (snd (complete (demo_repo OpenAIChatCompletionsRepo ''gpt-4'' 8192)
       (scripted_api [] (Inl Timeout)) ''hi'' None None None))) = ''gpt-4''
   \<and> self_max_tokens (fst (snd (complete (demo_repo OpenAIChatCompletionsRepo ''gpt-4'' 8192)
       (scripted_api [] (Inl Timeout)) ''hi'' None None None))) = 2000
   \<and> self_min_tokens (fst (snd (complete (demo_repo OpenAIChatCompletionsRepo ''gpt-4'' 8192)
       (scripted_api [] (Inl Timeout)) ''hi'' None None None))) = 1000
   \<and> self_context_limit (fst (snd (complete (demo_repo OpenAIChatCompletionsRepo ''gpt-4'' 8192)
       (scripted_api [] (Inl Timeout)) ''hi'' None None None))) = 8192
   \<and> self_temperature (fst (snd (complete (demo_repo OpenAIChatCompletionsRepo ''gpt-4'' 8192)
       (scripted_api [] (Inl Timeout)) ''hi'' None None None))) = 4 / 5"
  using complete_keeps_configuration[of "demo_repo OpenAIChatCompletionsRepo ''gpt-4'' 8192"
      "scripted_api [] (Inl Timeout)" "''hi''" None None None]
  by (simp add: case_prod_unfold demo_repo_def init_def)

end
